theory Spec2Isabelle
  imports Complex_Main
begin

section \<open>Python values the agent handles\<close>

text \<open>
  An exception raised by Python code. Every handler of \<^verbatim>\<open>agent.py\<close> is
  \<^verbatim>\<open>except Exception as e\<close>, which catches instances of \<^verbatim>\<open>Exception\<close> and
  lets the other subclasses of \<^verbatim>\<open>BaseException\<close> (\<^verbatim>\<open>SystemExit\<close>,
  \<^verbatim>\<open>KeyboardInterrupt\<close>, \<^verbatim>\<open>GeneratorExit\<close>) pass. The string is \<^verbatim>\<open>str(e)\<close>.
\<close>

datatype pyexc = Exception string | BaseException string

text \<open>
  A pandas \<^verbatim>\<open>DataFrame\<close>: row labels, column labels, one dtype and one array of cells per
  column. pandas is a library the repository calls; the frame and its \<^verbatim>\<open>equals\<close> follow the
  library's documented behaviour: the axes are equal, corresponding columns have the same
  dtype, and the elements are equal where missing values at the same location count as equal.
\<close>

datatype dtype = Int64 | Float64 | BoolD | ObjectD

datatype cell = NaN | NoneC | IntC int | FloatC real | StrC string | BoolC bool

record dataframe =
  df_index :: "int list"
  df_columns :: "string list"
  df_dtypes :: "dtype list"
  df_values :: "cell list list"

definition well_formed :: "dataframe \<Rightarrow> bool" where
  "well_formed df =
     (length (df_dtypes df) = length (df_columns df) \<and>
      length (df_values df) = length (df_columns df) \<and>
      list_all (\<lambda>col. length col = length (df_index df)) (df_values df))"

definition shape :: "dataframe \<Rightarrow> nat \<times> nat" where
  "shape df = (length (df_index df), length (df_columns df))"

fun isna :: "cell \<Rightarrow> bool" where
  "isna NaN = True"
| "isna NoneC = True"
| "isna _ = False"

fun num_of :: "cell \<Rightarrow> real option" where
  "num_of (IntC n) = Some (of_int n)"
| "num_of (FloatC x) = Some x"
| "num_of (BoolC b) = Some (if b then 1 else 0)"
| "num_of _ = None"

text \<open>Python's \<^verbatim>\<open>==\<close> on two cells: numbers compare by value, \<^verbatim>\<open>nan == nan\<close> is false.\<close>

definition py_eq :: "cell \<Rightarrow> cell \<Rightarrow> bool" where
  "py_eq a b =
     (case (num_of a, num_of b) of
        (Some x, Some y) \<Rightarrow> x = y
      | (None, None) \<Rightarrow> a \<noteq> NaN \<and> a = b
      | _ \<Rightarrow> False)"

text \<open>\<^verbatim>\<open>((left == right) | (isna(left) & isna(right))).all()\<close> on arrays of one length.\<close>

definition array_equivalent :: "cell list \<Rightarrow> cell list \<Rightarrow> bool" where
  "array_equivalent left right = list_all2 (\<lambda>a b. py_eq a b \<or> (isna a \<and> isna b)) left right"

definition equals :: "dataframe \<Rightarrow> dataframe \<Rightarrow> bool" where
  "equals a b =
     (df_index a = df_index b \<and> df_columns a = df_columns b \<and> df_dtypes a = df_dtypes b \<and>
      list_all2 array_equivalent (df_values a) (df_values b))"

text \<open>
  What a candidate's \<^verbatim>\<open>parse\<close> returns: a frame, or an object of another type (named by its
  type name), on which \<^verbatim>\<open>result_df.equals\<close> raises \<^verbatim>\<open>AttributeError\<close>.
\<close>

datatype pyobj = DataFrame dataframe | Other string

text \<open>
  A loaded candidate module: its attribute \<^verbatim>\<open>parse\<close> when it has one, as the function from the
  document path to what the call returns or raises.
\<close>

type_synonym pymodule = "(string \<Rightarrow> pyexc + pyobj) option"

section \<open>Diagnostics, schema, prompts\<close>

text \<open>
  The two dictionaries \<^verbatim>\<open>test_parser\<close> returns: the comparison
  \<^verbatim>\<open>{success, result_shape, expected_shape, columns_match, data_match}\<close> and the captured
  failure \<^verbatim>\<open>{success: False, error}\<close>.
\<close>

datatype diag =
    Compared bool "nat \<times> nat" "nat \<times> nat" bool bool
  | Failed string

text \<open>\<^verbatim>\<open>test_result.get("success", False)\<close>\<close>

fun get_success :: "diag \<Rightarrow> bool" where
  "get_success (Compared s rs es cm dm) = s"
| "get_success (Failed msg) = False"

text \<open>
  The dictionary of \<^verbatim>\<open>analyze_csv_schema\<close>: columns, dtypes, the first three rows and the
  row count, or \<^verbatim>\<open>{"error": str(e)}\<close>.
\<close>

datatype csv_schema =
    Schema "string list" "dtype list" "cell list list" nat
  | SchemaError string

text \<open>
  The two prompts, by the values their f-strings interpolate (the fixed wording is left out):
  bank name, document content and schema JSON for generation; diagnostic JSON, document
  content, schema JSON and previous code for repair.
\<close>

datatype prompt =
    GeneratePrompt string string string
  | FixPrompt string string string string

datatype provider = Google | Groq

section \<open>The world outside the agent\<close>

text \<open>
  The calls the agent makes to its collaborators, in order. The log is what the statements
  about how often something runs are about; its length also serves as the time at which an
  outside answer is asked for, so that the model, the clock and a candidate may answer
  differently at each call.
\<close>

datatype call = CallAnalyzePdf | CallAnalyzeCsv | CallGenerate | CallFix | CallTest

record world =
  files :: "string \<rightharpoonup> string"
  calls :: "call list"

text \<open>
  What the agent does not control: the clock (already formatted by \<^verbatim>\<open>strftime\<close>), what
  executing a candidate's source gives (an exception at load time, or the module), pandas'
  CSV reader on a file's content, the text-generation call of each provider, and
  \<^verbatim>\<open>json.dumps\<close>. Where a result is \<open>string + 'a\<close>, \<open>Inl\<close> carries \<^verbatim>\<open>str(e)\<close> of the
  \<^verbatim>\<open>Exception\<close> the call raised. \<^verbatim>\<open>json.dumps\<close> raises \<^verbatim>\<open>TypeError\<close> on a value that is
  not JSON-serialisable; the schema dictionary holds the frame's dtype objects, so its dump
  may raise, while a diagnostic holds only booleans, integers and strings. The last three
  fields are what \<^verbatim>\<open>_setup_llm\<close> reads.
\<close>

record env =
  now_stamp :: "nat \<Rightarrow> string"
  exec_module :: "nat \<Rightarrow> string \<Rightarrow> pyexc + pymodule"
  parse_csv :: "string \<Rightarrow> string + dataframe"
  llm_call :: "provider \<Rightarrow> nat \<Rightarrow> prompt \<Rightarrow> string + string"
  json_dumps_schema :: "csv_schema \<Rightarrow> string + string"
  json_dumps_result :: "diag \<Rightarrow> string"
  google_available :: bool
  groq_available :: bool
  getenv :: "string \<rightharpoonup> string"

definition nl :: char where
  "nl = CHR 0x0A"

definition quoted :: "string \<Rightarrow> string" where
  "quoted s = [CHR 0x27] @ s @ [CHR 0x27]"

definition endswith :: "string \<Rightarrow> string \<Rightarrow> bool" where
  "endswith s suf = (length suf \<le> length s \<and> drop (length s - length suf) s = suf)"

definition log_call :: "call \<Rightarrow> world \<Rightarrow> world" where
  "log_call c w = w\<lparr>calls := calls w @ [c]\<rparr>"

text \<open>\<^verbatim>\<open>pd.read_csv(path)\<close>: the file must be there, then the reader decides.\<close>

definition read_csv :: "env \<Rightarrow> world \<Rightarrow> string \<Rightarrow> string + dataframe" where
  "read_csv e w path =
     (case files w path of
        None \<Rightarrow> Inl (''[Errno 2] No such file or directory: '' @ quoted path)
      | Some content \<Rightarrow> parse_csv e content)"

section \<open>The agent's operations\<close>

record AgentState =
  target_bank :: string
  pdf_path :: string
  csv_path :: string
  attempt :: int
  max_attempts :: int
  parser_code :: string
  test_results :: "diag list"
  errors :: "string list"
  success :: bool

text \<open>\<^verbatim>\<open>AgentState(target_bank=..., pdf_path=..., csv_path=...)\<close> with the dataclass defaults.\<close>

definition new_state :: "string \<Rightarrow> string \<Rightarrow> string \<Rightarrow> AgentState" where
  "new_state target pdf csv =
     \<lparr>target_bank = target, pdf_path = pdf, csv_path = csv, attempt = 1, max_attempts = 3,
      parser_code = [], test_results = [], errors = [], success = False\<rparr>"

definition analyze_pdf_structure :: "world \<Rightarrow> string \<Rightarrow> string \<times> world" where
  "analyze_pdf_structure w path =
     (let w' = log_call CallAnalyzePdf w in
      if endswith path ''.txt'' then
        (case files w path of
           Some content \<Rightarrow> (content, w')
         | None \<Rightarrow>
             (''Error reading PDF: '' @ ''[Errno 2] No such file or directory: '' @ quoted path,
              w'))
      else (''PDF content would be extracted here'', w'))"

text \<open>\<^verbatim>\<open>df.head(3).to_dict('records')\<close>: the first three rows.\<close>

definition sample_data :: "dataframe \<Rightarrow> cell list list" where
  "sample_data df = transpose (map (take 3) (df_values df))"

definition analyze_csv_schema :: "env \<Rightarrow> world \<Rightarrow> string \<Rightarrow> csv_schema \<times> world" where
  "analyze_csv_schema e w path =
     (let w' = log_call CallAnalyzeCsv w in
      case read_csv e w path of
        Inr df \<Rightarrow>
          (Schema (df_columns df) (df_dtypes df) (sample_data df) (length (df_index df)), w')
      | Inl msg \<Rightarrow> (SchemaError msg, w'))"

text \<open>The text \<^verbatim>\<open>generate_parser_code\<close> returns from its handler.\<close>

definition placeholder :: "string \<Rightarrow> string" where
  "placeholder msg =
     ''# Error generating code: '' @ msg @ [nl, nl] @
     ''# Placeholder parser code'' @ [nl] @
     ''import pandas as pd'' @ [nl, nl] @
     ''def parse(pdf_path: str) -> pd.DataFrame:'' @ [nl] @
     ''    return pd.DataFrame()''"

text \<open>
  \<^verbatim>\<open>generate_parser_code\<close>: the prompt is built before the \<^verbatim>\<open>try\<close>, so a raising
  \<^verbatim>\<open>json.dumps\<close> leaves the function (\<open>Inl\<close>); the model call is inside it.
\<close>

definition generate_parser_code ::
  "env \<Rightarrow> provider \<Rightarrow> world \<Rightarrow> string \<Rightarrow> csv_schema \<Rightarrow> string \<Rightarrow> (string + string) \<times> world" where
  "generate_parser_code e p w pdf_content schema bank_name =
     (let w' = log_call CallGenerate w in
      case json_dumps_schema e schema of
        Inl msg \<Rightarrow> (Inl msg, w')
      | Inr js \<Rightarrow>
          (case llm_call e p (length (calls w)) (GeneratePrompt bank_name pdf_content js) of
             Inr text \<Rightarrow> (Inr text, w')
           | Inl msg \<Rightarrow> (Inr (placeholder msg), w')))"

definition fix_parser_code ::
  "env \<Rightarrow> provider \<Rightarrow> world \<Rightarrow> string \<Rightarrow> diag \<Rightarrow> string \<Rightarrow> csv_schema \<Rightarrow> (string + string) \<times> world" where
  "fix_parser_code e p w code d pdf_content schema =
     (let w' = log_call CallFix w in
      case json_dumps_schema e schema of
        Inl msg \<Rightarrow> (Inl msg, w')
      | Inr js \<Rightarrow>
          (case llm_call e p (length (calls w))
                  (FixPrompt (json_dumps_result e d) pdf_content js code) of
             Inr text \<Rightarrow> (Inr text, w')
           | Inl msg \<Rightarrow> (Inr code, w')))"

text \<open>
  The handler of \<^verbatim>\<open>test_parser\<close>: an \<^verbatim>\<open>Exception\<close> becomes the failure dictionary, anything
  else goes on to the caller. The world is the one at the raise: nothing is cleaned up.
\<close>

fun captured :: "pyexc \<Rightarrow> world \<Rightarrow> (pyexc + diag) \<times> world" where
  "captured (Exception msg) w = (Inr (Failed msg), w)"
| "captured (BaseException msg) w = (Inl (BaseException msg), w)"

definition parser_file_name :: "env \<Rightarrow> world \<Rightarrow> string" where
  "parser_file_name e w = ''temp_parser_'' @ now_stamp e (length (calls w)) @ ''.py''"

text \<open>
  \<^verbatim>\<open>test_parser\<close>: write the candidate to the temporary file, execute it as a module, call
  its \<^verbatim>\<open>parse\<close>, read the expected table, compare, remove the file, report. Writing the file
  is taken to succeed; what the candidate itself does to the file system is not modelled.
\<close>

definition test_parser ::
  "env \<Rightarrow> world \<Rightarrow> string \<Rightarrow> string \<Rightarrow> string \<Rightarrow> (pyexc + diag) \<times> world" where
  "test_parser e w code pdf csv =
     (let parser_file = parser_file_name e w;
          w1 = (log_call CallTest w)\<lparr>files := (files w)(parser_file \<mapsto> code)\<rparr>
      in case exec_module e (length (calls w)) code of
           Inl ex \<Rightarrow> captured ex w1
         | Inr None \<Rightarrow>
             captured (Exception (''module 'temp_parser' has no attribute '' @ quoted ''parse'')) w1
         | Inr (Some parse) \<Rightarrow>
             (case parse pdf of
                Inl ex \<Rightarrow> captured ex w1
              | Inr obj \<Rightarrow>
                  (case read_csv e w1 csv of
                     Inl msg \<Rightarrow> captured (Exception msg) w1
                   | Inr expected_df \<Rightarrow>
                       (case obj of
                          Other tn \<Rightarrow>
                            captured
                              (Exception (quoted tn @ '' object has no attribute '' @ quoted ''equals'')) w1
                        | DataFrame result_df \<Rightarrow>
                            (let is_equal = equals result_df expected_df;
                                 w2 = w1\<lparr>files := (files w1)(parser_file := None)\<rparr>
                             in (Inr (Compared is_equal (shape result_df) (shape expected_df)
                                        (df_columns result_df = df_columns expected_df) is_equal),
                                 w2))))))"

text \<open>
  Two names for what \<^verbatim>\<open>test_parser\<close> does before it compares: what loading the candidate
  and calling \<^verbatim>\<open>module.parse(pdf_path)\<close> gives (a missing \<^verbatim>\<open>parse\<close> is the
  \<^verbatim>\<open>AttributeError\<close> of the attribute access), and the world once the temporary file is
  written.
\<close>

definition run_candidate :: "env \<Rightarrow> world \<Rightarrow> string \<Rightarrow> string \<Rightarrow> pyexc + pyobj" where
  "run_candidate e w code pdf =
     (case exec_module e (length (calls w)) code of
        Inl ex \<Rightarrow> Inl ex
      | Inr None \<Rightarrow> Inl (Exception (''module 'temp_parser' has no attribute '' @ quoted ''parse''))
      | Inr (Some parse) \<Rightarrow> parse pdf)"

definition written :: "env \<Rightarrow> world \<Rightarrow> string \<Rightarrow> world" where
  "written e w code = (log_call CallTest w)\<lparr>files := (files w)(parser_file_name e w \<mapsto> code)\<rparr>"

section \<open>The agent loop\<close>

text \<open>How one pass through the body of the \<^verbatim>\<open>while\<close> ends.\<close>

datatype signal = Next | Break | Raise pyexc

text \<open>
  The body of the loop. \<^verbatim>\<open>state.test_results[-1]\<close> is evaluated before
  \<^verbatim>\<open>fix_parser_code\<close> is called and raises \<^verbatim>\<open>IndexError\<close> on an empty history. Nothing in
  the loop catches an exception, so one that leaves a call leaves the loop, with the state
  as mutated so far.
\<close>

definition attempt_body ::
  "env \<Rightarrow> provider \<Rightarrow> AgentState \<Rightarrow> world \<Rightarrow> signal \<times> AgentState \<times> world" where
  "attempt_body e p s w =
     (let (pdf_content, w1) = analyze_pdf_structure w (pdf_path s);
          (schema, w2) = analyze_csv_schema e w1 (csv_path s);
          (gen, w3) =
            (if attempt s = 1 then
               generate_parser_code e p w2 pdf_content schema (target_bank s)
             else if test_results s = [] then (Inl ''list index out of range'', w2)
             else fix_parser_code e p w2 (parser_code s) (last (test_results s))
                    pdf_content schema)
      in case gen of
           Inl msg \<Rightarrow> (Raise (Exception msg), s, w3)
         | Inr code \<Rightarrow>
             (let s1 = s\<lparr>parser_code := code\<rparr> in
              case test_parser e w3 (parser_code s1) (pdf_path s1) (csv_path s1) of
                (Inl ex, w4) \<Rightarrow> (Raise ex, s1, w4)
              | (Inr test_result, w4) \<Rightarrow>
                  (let s2 = s1\<lparr>test_results := test_results s1 @ [test_result]\<rparr> in
                   if get_success test_result then (Break, s2\<lparr>success := True\<rparr>, w4)
                   else (Next, s2\<lparr>attempt := attempt s2 + 1\<rparr>, w4))))"

text \<open>
  \<^verbatim>\<open>run_agent_loop\<close>: the result is the exception that left the loop, if one did, the
  state and the world.
\<close>

function run_agent_loop ::
  "env \<Rightarrow> provider \<Rightarrow> AgentState \<Rightarrow> world \<Rightarrow> pyexc option \<times> AgentState \<times> world" where
  "run_agent_loop e p s w =
     (if attempt s \<le> max_attempts s \<and> \<not> success s then
        (case attempt_body e p s w of
           (Next, s', w') \<Rightarrow> run_agent_loop e p s' w'
         | (Break, s', w') \<Rightarrow> (None, s', w')
         | (Raise ex, s', w') \<Rightarrow> (Some ex, s', w'))
      else (None, s, w))"
  by pat_completeness auto
termination
proof (relation "measure (\<lambda>(e, p, s, w). nat (max_attempts s + 1 - attempt s))")
  show "wf (measure (\<lambda>(e, p, s, w). nat (max_attempts s + 1 - attempt s)))"
    by simp
next
  fix e p s w x1 x2 s' w'
  assume c: "attempt s \<le> max_attempts s \<and> \<not> success s"
    and b: "(x1, x2) = attempt_body e p s w" "(s', w') = x2" "x1 = Next"
  then have "attempt_body e p s w = (Next, s', w')"
    by simp
  then have "attempt s' = attempt s + 1 \<and> max_attempts s' = max_attempts s"
    by (auto simp: attempt_body_def Let_def split: prod.splits sum.splits if_splits)
  with c show "((e, p, s', w'), (e, p, s, w))
          \<in> measure (\<lambda>(e, p, s, w). nat (max_attempts s + 1 - attempt s))"
    by simp
qed

declare run_agent_loop.simps [simp del]

section \<open>The command line\<close>











section \<open>The verifier as specified\<close>

text \<open>
  The verifier as section 4.4 of the specification words it, for comparison with
  \<^verbatim>\<open>test_parser\<close>: the first mismatch in the order execution, shape, column names, cells
  decides the kind, and the kind carries its detail.
\<close>

datatype verdict =
    ExecutionError string
  | ShapeMismatch "nat \<times> nat" "nat \<times> nat"
  | SchemaMismatch "string list" "string list"
  | DataMismatch
  | Verified

definition spec_verify :: "string + dataframe \<Rightarrow> dataframe \<Rightarrow> verdict" where
  "spec_verify produced expected =
     (case produced of
        Inl err \<Rightarrow> ExecutionError err
      | Inr t \<Rightarrow>
          if shape t \<noteq> shape expected then ShapeMismatch (shape t) (shape expected)
          else if df_columns t \<noteq> df_columns expected
            then SchemaMismatch (df_columns t) (df_columns expected)
          else if \<not> (df_dtypes t = df_dtypes expected \<and> df_values t = df_values expected)
            then DataMismatch
          else Verified)"

section \<open>Concrete inputs\<close>

text \<open>
  A small expected table with a missing value in an object column and in a float column, an
  environment in which every candidate loads but defines no \<^verbatim>\<open>parse\<close>, a file system with
  the two inputs, and the state \<^verbatim>\<open>main\<close> would build for them.
\<close>

definition sample_df :: dataframe where
  "sample_df =
     \<lparr>df_index = [0, 1],
      df_columns = [''Date'', ''Description'', ''Debit''],
      df_dtypes = [ObjectD, ObjectD, Float64],
      df_values = [[StrC ''01-08-2024'', StrC ''02-08-2024''],
                   [StrC ''Salary'', NoneC],
                   [NaN, FloatC 250]]\<rparr>"

definition env0 :: env where
  "env0 =
     \<lparr>now_stamp = (\<lambda>t. ''20250101_120000''),
      exec_module = (\<lambda>t code. Inr None),
      parse_csv = (\<lambda>content. Inr sample_df),
      llm_call = (\<lambda>p t q. Inr ''import pandas as pd''),
      json_dumps_schema = (\<lambda>sch. Inr ''{}''),
      json_dumps_result = (\<lambda>d. ''{}''),
      google_available = True,
      groq_available = False,
      getenv = [''GOOGLE_API_KEY'' \<mapsto> ''key'']\<rparr>"

definition w0 :: world where
  "w0 = \<lparr>files = [''icici.pdf.txt'' \<mapsto> ''statement'', ''icici.csv'' \<mapsto> ''Date,Description,Debit''],
          calls = []\<rparr>"

definition s0 :: AgentState where
  "s0 = new_state ''icici'' ''icici.pdf.txt'' ''icici.csv''"

definition no_parse_msg :: string where
  "no_parse_msg = ''module 'temp_parser' has no attribute '' @ quoted ''parse''"

text \<open>
  Environments in which every candidate's \<^verbatim>\<open>parse\<close> returns a given object, raises a given
  exception, or in which loading the candidate raises; and the expected table with its second
  column renamed.
\<close>

definition env_returning :: "pyobj \<Rightarrow> env" where
  "env_returning obj = env0\<lparr>exec_module := (\<lambda>t code. Inr (Some (\<lambda>path. Inr obj)))\<rparr>"

definition env_raising :: "pyexc \<Rightarrow> env" where
  "env_raising ex = env0\<lparr>exec_module := (\<lambda>t code. Inr (Some (\<lambda>path. Inl ex)))\<rparr>"

definition env_broken :: "pyexc \<Rightarrow> env" where
  "env_broken ex = env0\<lparr>exec_module := (\<lambda>t code. Inl ex)\<rparr>"

definition renamed :: "string \<Rightarrow> dataframe" where
  "renamed c = sample_df\<lparr>df_columns := [''Date'', c, ''Debit'']\<rparr>"





text \<open>
  The first environment again, except that only the first candidate lacks \<^verbatim>\<open>parse\<close> (the
  first test is the fourth call, at time 3); every later one returns the expected table.
\<close>

definition env_retry :: env where
  "env_retry =
     env0\<lparr>exec_module :=
       (\<lambda>t code. if t = 3 then Inr None else Inr (Some (\<lambda>path. Inr (DataFrame sample_df))))\<rparr>"

section \<open>Facts about the operations\<close>

lemma attempt_body_Next:
  assumes "attempt_body e p s w = (Next, s', w')"
  shows "attempt s' = attempt s + 1" and "max_attempts s' = max_attempts s"
  using assms
  by (auto simp: attempt_body_def Let_def split: prod.splits sum.splits if_splits)

lemma isna_or_py_eq: "py_eq a a \<or> (isna a \<and> isna a)"
  by (cases a) (simp_all add: py_eq_def)

lemma array_equivalent_refl: "array_equivalent xs xs"
  unfolding array_equivalent_def by (rule list_all2_refl) (rule isna_or_py_eq)

lemma equals_refl: "equals T T"
  unfolding equals_def by (simp add: list_all2_refl array_equivalent_refl)

lemma equals_shape: "equals a b \<Longrightarrow> shape a = shape b"
  by (simp add: equals_def shape_def)

lemma equals_columns: "equals a b \<Longrightarrow> df_columns a = df_columns b"
  by (simp add: equals_def)

lemma read_csv_after_write:
  "csv \<noteq> f \<Longrightarrow> read_csv e ((log_call c w)\<lparr>files := (files w)(f \<mapsto> code)\<rparr>) csv = read_csv e w csv"
  by (simp add: read_csv_def)

lemma test_parser_load_raises:
  "exec_module e (length (calls w)) code = Inl ex \<Longrightarrow>
   test_parser e w code pdf csv =
     captured ex ((log_call CallTest w)\<lparr>files := (files w)(parser_file_name e w \<mapsto> code)\<rparr>)"
  by (simp add: test_parser_def Let_def)


lemma test_parser_parse_raises:
  "exec_module e (length (calls w)) code = Inr (Some parse) \<Longrightarrow> parse pdf = Inl ex \<Longrightarrow>
   test_parser e w code pdf csv =
     captured ex ((log_call CallTest w)\<lparr>files := (files w)(parser_file_name e w \<mapsto> code)\<rparr>)"
  by (simp add: test_parser_def Let_def)

lemma test_parser_compared:
  "exec_module e (length (calls w)) code = Inr (Some parse) \<Longrightarrow>
   parse pdf = Inr (DataFrame R) \<Longrightarrow> read_csv e w csv = Inr E \<Longrightarrow>
   csv \<noteq> parser_file_name e w \<Longrightarrow>
   test_parser e w code pdf csv =
     (Inr (Compared (equals R E) (shape R) (shape E) (df_columns R = df_columns E) (equals R E)),
      (log_call CallTest w)\<lparr>files := (files w)(parser_file_name e w := None)\<rparr>)"
  by (simp add: test_parser_def Let_def read_csv_after_write)

lemma test_parser_raised:
  "run_candidate e w code pdf = Inl ex \<Longrightarrow>
   test_parser e w code pdf csv = captured ex (written e w code)"
  by (auto simp: run_candidate_def test_parser_def written_def Let_def
      split: sum.splits option.splits)

lemma test_parser_frame:
  "run_candidate e w code pdf = Inr (DataFrame R) \<Longrightarrow> read_csv e w csv = Inr E \<Longrightarrow>
   csv \<noteq> parser_file_name e w \<Longrightarrow>
   test_parser e w code pdf csv =
     (Inr (Compared (equals R E) (shape R) (shape E) (df_columns R = df_columns E) (equals R E)),
      (log_call CallTest w)\<lparr>files := (files w)(parser_file_name e w := None)\<rparr>)"
  by (auto simp: run_candidate_def test_parser_def Let_def read_csv_after_write
      split: sum.splits option.splits)



lemma captured_world: "snd (captured ex w) = w"
  by (cases ex) simp_all

lemma test_parser_calls: "calls (snd (test_parser e w code pdf csv)) = calls w @ [CallTest]"
  by (simp add: test_parser_def Let_def log_call_def captured_world
      split: sum.splits option.splits pyobj.splits)

lemma test_parser_callsD:
  "test_parser e w code pdf csv = (r, w') \<Longrightarrow> calls w' = calls w @ [CallTest]"
  using test_parser_calls [of e w code pdf csv] by simp

lemma analyze_pdf_structure_world:
  "analyze_pdf_structure w path = (c, w') \<Longrightarrow> w' = log_call CallAnalyzePdf w"
  by (auto simp: analyze_pdf_structure_def Let_def split: option.splits if_splits)

lemma analyze_csv_schema_world:
  "analyze_csv_schema e w path = (sch, w') \<Longrightarrow> w' = log_call CallAnalyzeCsv w"
  by (auto simp: analyze_csv_schema_def Let_def split: sum.splits)

lemma generate_parser_code_world:
  "generate_parser_code e p w c sch b = (r, w') \<Longrightarrow> w' = log_call CallGenerate w"
  by (auto simp: generate_parser_code_def Let_def split: sum.splits)

lemma fix_parser_code_world:
  "fix_parser_code e p w code d c sch = (r, w') \<Longrightarrow> w' = log_call CallFix w"
  by (auto simp: fix_parser_code_def Let_def split: sum.splits)

lemma attempt_body_state:
  assumes "attempt_body e p s w = (sig, s', w')"
  shows "max_attempts s' = max_attempts s"
    and "sig = Next \<Longrightarrow>
           \<exists>d. \<not> get_success d \<and> test_results s' = test_results s @ [d] \<and>
               attempt s' = attempt s + 1 \<and> success s' = success s"
    and "sig = Break \<Longrightarrow>
           \<exists>d. get_success d \<and> test_results s' = test_results s @ [d] \<and>
               attempt s' = attempt s \<and> success s'"
    and "sig = Raise ex \<Longrightarrow>
           test_results s' = test_results s \<and> attempt s' = attempt s \<and> success s' = success s"
  using assms
  by (auto simp: attempt_body_def Let_def split: prod.splits sum.splits if_splits)

lemma attempt_body_calls:
  assumes "attempt_body e p s w = (sig, s', w')"
  shows "count_list (calls w') CallAnalyzePdf = count_list (calls w) CallAnalyzePdf + 1"
    and "count_list (calls w') CallAnalyzeCsv = count_list (calls w) CallAnalyzeCsv + 1"
    and "count_list (calls w') CallTest \<le> count_list (calls w) CallTest + 1"
    and "sig = Next \<or> sig = Break \<Longrightarrow>
           count_list (calls w') CallTest = count_list (calls w) CallTest + 1"
    and "count_list (calls w) CallTest \<le> count_list (calls w') CallTest"
  using assms
  by (auto simp: attempt_body_def Let_def log_call_def
      split: prod.splits sum.splits if_splits
      dest!: analyze_pdf_structure_world analyze_csv_schema_world generate_parser_code_world
        fix_parser_code_world test_parser_callsD)

lemma loop_stop:
  "\<not> (attempt s \<le> max_attempts s \<and> \<not> success s) \<Longrightarrow> run_agent_loop e p s w = (None, s, w)"
  by (subst run_agent_loop.simps) auto

lemma loop_next:
  "attempt s \<le> max_attempts s \<and> \<not> success s \<Longrightarrow> attempt_body e p s w = (Next, s1, w1) \<Longrightarrow>
   run_agent_loop e p s w = run_agent_loop e p s1 w1"
  by (subst run_agent_loop.simps) simp

lemma loop_break:
  "attempt s \<le> max_attempts s \<and> \<not> success s \<Longrightarrow> attempt_body e p s w = (Break, s1, w1) \<Longrightarrow>
   run_agent_loop e p s w = (None, s1, w1)"
  by (subst run_agent_loop.simps) simp

lemma loop_raise:
  "attempt s \<le> max_attempts s \<and> \<not> success s \<Longrightarrow> attempt_body e p s w = (Raise ex, s1, w1) \<Longrightarrow>
   run_agent_loop e p s w = (Some ex, s1, w1)"
  by (subst run_agent_loop.simps) simp

lemma loop_induct [consumes 1, case_names stop break raise again]:
  assumes run: "run_agent_loop e p s w = (r, s', w')"
    and stop: "\<And>s w. \<not> (attempt s \<le> max_attempts s \<and> \<not> success s) \<Longrightarrow> P s w None s w"
    and break: "\<And>s w s1 w1. attempt s \<le> max_attempts s \<Longrightarrow> \<not> success s \<Longrightarrow>
        attempt_body e p s w = (Break, s1, w1) \<Longrightarrow> P s w None s1 w1"
    and raise: "\<And>s w s1 w1 ex. attempt s \<le> max_attempts s \<Longrightarrow> \<not> success s \<Longrightarrow>
        attempt_body e p s w = (Raise ex, s1, w1) \<Longrightarrow> P s w (Some ex) s1 w1"
    and again: "\<And>s w s1 w1 r s' w'. attempt s \<le> max_attempts s \<Longrightarrow> \<not> success s \<Longrightarrow>
        attempt_body e p s w = (Next, s1, w1) \<Longrightarrow> run_agent_loop e p s1 w1 = (r, s', w') \<Longrightarrow>
        P s1 w1 r s' w' \<Longrightarrow> P s w r s' w'"
  shows "P s w r s' w'"
  using run
proof (induction "nat (max_attempts s + 1 - attempt s)" arbitrary: s w rule: less_induct)
  case less
  show ?case
  proof (cases "attempt s \<le> max_attempts s \<and> \<not> success s")
    case False
    with less.prems stop [of s w] show ?thesis
      by (auto simp: loop_stop)
  next
    case True
    then have a: "attempt s \<le> max_attempts s" and b: "\<not> success s"
      by simp_all
    obtain sig s1 w1 where body: "attempt_body e p s w = (sig, s1, w1)"
      by (cases "attempt_body e p s w") auto
    show ?thesis
    proof (cases sig)
      case Next
      with body True less.prems have run1: "run_agent_loop e p s1 w1 = (r, s', w')"
        by (simp add: loop_next)
      from body Next have body': "attempt_body e p s w = (Next, s1, w1)"
        by simp
      from attempt_body_Next [OF body'] a
      have "nat (max_attempts s1 + 1 - attempt s1) < nat (max_attempts s + 1 - attempt s)"
        by simp
      then have ih: "P s1 w1 r s' w'"
        using run1 by (rule less.hyps)
      show ?thesis
        by (rule again [OF a b body' run1 ih])
    next
      case Break
      with body True less.prems break [of s w s1 w1] show ?thesis
        by (auto simp: loop_break)
    next
      case (Raise ex)
      with body True less.prems raise [of s w ex s1 w1] show ?thesis
        by (auto simp: loop_raise)
    qed
  qed
qed

lemma loop_frame:
  assumes "run_agent_loop e p s w = (r, s', w')"
  shows "max_attempts s' = max_attempts s \<and> attempt s \<le> attempt s' \<and>
         (attempt s \<le> max_attempts s + 1 \<longrightarrow> attempt s' \<le> max_attempts s + 1)"
  using assms
proof (induction rule: loop_induct)
  case (stop s w)
  then show ?case by simp
next
  case (break s w s1 w1)
  from attempt_body_state(1,3) [OF break(3)] break(1) show ?case by auto
next
  case (raise s w s1 w1 ex)
  from attempt_body_state(1,4) [OF raise(3)] raise(1) show ?case by auto
next
  case (again s w s1 w1 r s' w')
  from attempt_body_state(1,2) [OF again(3)] again(1,5) show ?case by auto
qed

lemma loop_exit:
  assumes "run_agent_loop e p s w = (r, s', w')"
  shows "(r = None \<and> \<not> success s' \<longrightarrow> max_attempts s < attempt s') \<and>
         (r \<noteq> None \<or> (success s' \<and> \<not> success s) \<longrightarrow> attempt s' \<le> max_attempts s) \<and>
         (r \<noteq> None \<longrightarrow> \<not> success s')"
  using assms
proof (induction rule: loop_induct)
  case (stop s w)
  then show ?case by auto
next
  case (break s w s1 w1)
  from attempt_body_state(1,3) [OF break(3)] break(1) show ?case by auto
next
  case (raise s w s1 w1 ex)
  from attempt_body_state(1,4) [OF raise(3)] raise(1,2) show ?case by auto
next
  case (again s w s1 w1 r s' w')
  from attempt_body_state(1,2) [OF again(3)] again(1,2,5) show ?case by auto
qed

lemma loop_history:
  assumes "run_agent_loop e p s w = (r, s', w')"
  shows "\<exists>ds. test_results s' = test_results s @ ds \<and>
           list_all (\<lambda>d. \<not> get_success d) (butlast ds) \<and>
           (success s' \<longleftrightarrow> success s \<or> (ds \<noteq> [] \<and> get_success (last ds))) \<and>
           attempt s' = attempt s + int (length (filter (\<lambda>d. \<not> get_success d) ds))"
  using assms
proof (induction rule: loop_induct)
  case (stop s w)
  then show ?case by simp
next
  case (break s w s1 w1)
  from attempt_body_state(3) [OF break(3)] break(2) show ?case by auto
next
  case (raise s w s1 w1 ex)
  from attempt_body_state(4) [OF raise(3)] show ?case by auto
next
  case (again s w s1 w1 r s' w')
  from attempt_body_state(2) [OF again(3)] obtain d where
    d: "\<not> get_success d" "test_results s1 = test_results s @ [d]"
       "attempt s1 = attempt s + 1" "success s1 = success s"
    by auto
  from again(5) obtain ds where
    ds: "test_results s' = test_results s1 @ ds"
        "list_all (\<lambda>d. \<not> get_success d) (butlast ds)"
        "success s' \<longleftrightarrow> success s1 \<or> (ds \<noteq> [] \<and> get_success (last ds))"
        "attempt s' = attempt s1 + int (length (filter (\<lambda>d. \<not> get_success d) ds))"
    by auto
  show ?case
    by (rule exI [of _ "d # ds"]) (use d ds in auto)
qed

lemma loop_calls:
  assumes "run_agent_loop e p s w = (r, s', w')"
  shows "count_list (calls w') CallAnalyzePdf + length (test_results s) =
           count_list (calls w) CallAnalyzePdf + length (test_results s') +
           (if r = None then 0 else 1) \<and>
         count_list (calls w') CallAnalyzeCsv + length (test_results s) =
           count_list (calls w) CallAnalyzeCsv + length (test_results s') +
           (if r = None then 0 else 1) \<and>
         count_list (calls w) CallTest + length (test_results s') \<le>
           count_list (calls w') CallTest + length (test_results s) \<and>
         count_list (calls w') CallTest + length (test_results s) \<le>
           count_list (calls w) CallTest + length (test_results s') +
           (if r = None then 0 else 1)"
  using assms
proof (induction rule: loop_induct)
  case (stop s w)
  then show ?case by simp
next
  case (break s w s1 w1)
  from attempt_body_state(3) [OF break(3)] attempt_body_calls [OF break(3)]
  show ?case by auto
next
  case (raise s w s1 w1 ex)
  from attempt_body_state(4) [OF raise(3)] attempt_body_calls(1,2,3,5) [OF raise(3)]
  show ?case by auto
next
  case (again s w s1 w1 r s' w')
  from attempt_body_state(2) [OF again(3)] attempt_body_calls [OF again(3)] again(5)
  show ?case by auto
qed

lemma list_all_butlast_last:
  "list_all P (butlast ds) \<Longrightarrow> (ds \<noteq> [] \<longrightarrow> P (last ds)) \<Longrightarrow> list_all P ds"
  by (cases ds rule: rev_cases) simp_all

lemma loop_length:
  assumes "run_agent_loop e p s w = (r, s', w')"
  shows "int (length (test_results s')) - int (length (test_results s)) =
           attempt s' - attempt s + (if success s' \<and> \<not> success s then 1 else 0)"
  using assms
proof (induction rule: loop_induct)
  case (stop s w)
  then show ?case by simp
next
  case (break s w s1 w1)
  from attempt_body_state(3) [OF break(3)] break(2) show ?case by auto
next
  case (raise s w s1 w1 ex)
  from attempt_body_state(4) [OF raise(3)] show ?case by auto
next
  case (again s w s1 w1 r s' w')
  from attempt_body_state(2) [OF again(3)] again(2,5) show ?case by auto
qed

section \<open>Concrete runs, evaluated\<close>

lemmas eval_env = env_returning_def env_raising_def env_broken_def env0_def w0_def
  run_candidate_def read_csv_def parser_file_name_def



text \<open>With three failing attempts the loop gives up: the run, evaluated.\<close>

lemma run_env0:
  "(case run_agent_loop env0 Google s0 w0 of
      (r, s', w') \<Rightarrow>
        r = None \<and> attempt s' = 4 \<and> max_attempts s' = 3 \<and> \<not> success s' \<and>
        test_results s' = [Failed no_parse_msg, Failed no_parse_msg, Failed no_parse_msg] \<and>
        calls w' = [CallAnalyzePdf, CallAnalyzeCsv, CallGenerate, CallTest,
                    CallAnalyzePdf, CallAnalyzeCsv, CallFix, CallTest,
                    CallAnalyzePdf, CallAnalyzeCsv, CallFix, CallTest])"
  by (simp add: run_agent_loop.simps attempt_body_def analyze_pdf_structure_def
      analyze_csv_schema_def generate_parser_code_def fix_parser_code_def test_parser_def
      read_csv_def log_call_def parser_file_name_def endswith_def env0_def w0_def s0_def
      new_state_def no_parse_msg_def Let_def)

text \<open>With a first candidate that lacks \<^verbatim>\<open>parse\<close> and a second that is right, the loop succeeds at attempt 2.\<close>

lemma run_env_retry:
  "(case run_agent_loop env_retry Google s0 w0 of
      (r, s', w') \<Rightarrow>
        r = None \<and> attempt s' = 2 \<and> max_attempts s' = 3 \<and> success s' \<and>
        test_results s' = [Failed no_parse_msg, Compared True (2, 3) (2, 3) True True] \<and>
        calls w' = [CallAnalyzePdf, CallAnalyzeCsv, CallGenerate, CallTest,
                    CallAnalyzePdf, CallAnalyzeCsv, CallFix, CallTest])"
  by (simp add: run_agent_loop.simps attempt_body_def analyze_pdf_structure_def
      analyze_csv_schema_def generate_parser_code_def fix_parser_code_def test_parser_def
      read_csv_def log_call_def parser_file_name_def endswith_def env_retry_def env0_def w0_def
      s0_def new_state_def no_parse_msg_def Let_def equals_refl shape_def sample_df_def)

section \<open>The retry budget\<close>

text \<open>
  C1. From a fresh state (attempt 1, empty history, no success) with a retry budget
  \<open>max_attempts s\<close> of at least 1, whatever the outside world answers and however the run
  ends: the loop body is entered at most budget many times (each entry calls
  \<^verbatim>\<open>analyze_pdf_structure\<close> once), \<^verbatim>\<open>test_parser\<close> is called at most budget many times, the
  history \<open>test_results\<close> ends no longer than the budget (it only grows, so it never was
  longer), and the history holds exactly budget many diagnostics that all report failure
  precisely when the loop returns normally without success, which is the terminal failure.
\<close>

theorem run_agent_loop_budget:
  assumes budget: "1 \<le> max_attempts s"
    and fresh: "attempt s = 1" "test_results s = []" "\<not> success s"
    and run: "run_agent_loop e p s w = (r, s', w')"
  shows "int (count_list (calls w') CallAnalyzePdf)
           \<le> int (count_list (calls w) CallAnalyzePdf) + max_attempts s \<and>
         int (count_list (calls w') CallTest)
           \<le> int (count_list (calls w) CallTest) + max_attempts s \<and>
         int (length (test_results s')) \<le> max_attempts s \<and>
         ((list_all (\<lambda>d. \<not> get_success d) (test_results s') \<and>
           int (length (test_results s')) = max_attempts s)
          = (r = None \<and> \<not> success s'))"
proof -
  from loop_length [OF run] fresh
  have len: "int (length (test_results s')) = attempt s' - 1 + (if success s' then 1 else 0)"
    by simp
  from loop_frame [OF run] fresh budget
  have le: "attempt s' \<le> max_attempts s + 1" and ge: "1 \<le> attempt s'"
    by simp_all
  from loop_exit [OF run] fresh
  have ex: "r = None \<and> \<not> success s' \<longrightarrow> max_attempts s < attempt s'"
    "r \<noteq> None \<or> success s' \<longrightarrow> attempt s' \<le> max_attempts s"
    "r \<noteq> None \<longrightarrow> \<not> success s'"
    by simp_all
  from loop_history [OF run] fresh obtain ds where
    ds: "test_results s' = ds" "list_all (\<lambda>d. \<not> get_success d) (butlast ds)"
        "success s' \<longleftrightarrow> ds \<noteq> [] \<and> get_success (last ds)"
    by auto
  have allfail: "\<not> success s' \<Longrightarrow> list_all (\<lambda>d. \<not> get_success d) (test_results s')"
    using ds list_all_butlast_last [of "\<lambda>d. \<not> get_success d" ds] by auto
  have nosucc: "list_all (\<lambda>d. \<not> get_success d) (test_results s') \<Longrightarrow> \<not> success s'"
    using ds by (cases ds rule: rev_cases) auto
  have pdf: "int (count_list (calls w') CallAnalyzePdf) =
               int (count_list (calls w) CallAnalyzePdf) + int (length (test_results s')) +
               (if r = None then 0 else 1)"
    using loop_calls [OF run] fresh by (cases r) simp_all
  have tst: "int (count_list (calls w') CallTest) \<le>
               int (count_list (calls w) CallTest) + int (length (test_results s')) +
               (if r = None then 0 else 1)"
    using loop_calls [OF run] fresh by (cases r) simp_all
  have bound: "int (length (test_results s')) + (if r = None then 0 else 1) \<le> max_attempts s"
    using len le ex by (auto split: if_splits)
  have "int (length (test_results s')) \<le> max_attempts s"
    using bound by (simp split: if_splits)
  moreover have "(list_all (\<lambda>d. \<not> get_success d) (test_results s') \<and>
           int (length (test_results s')) = max_attempts s)
          = (r = None \<and> \<not> success s')"
    using len le ex allfail nosucc by (auto split: if_splits)
  ultimately show ?thesis
    using pdf tst bound by simp
qed

theorem run_agent_loop_budget_witness:
  "1 \<le> max_attempts s0 \<and> attempt s0 = 1 \<and> test_results s0 = [] \<and> \<not> success s0 \<and>
   (case run_agent_loop env0 Google s0 w0 of
      (r, s', w') \<Rightarrow>
        count_list (calls w') CallAnalyzePdf = 3 \<and> count_list (calls w') CallTest = 3 \<and>
        length (test_results s') = 3 \<and> max_attempts s0 = 3 \<and>
        list_all (\<lambda>d. \<not> get_success d) (test_results s') \<and> r = None \<and> \<not> success s')"
proof -
  obtain r s' w' where run: "run_agent_loop env0 Google s0 w0 = (r, s', w')"
    by (cases "run_agent_loop env0 Google s0 w0") auto
  have h: "1 \<le> max_attempts s0" "attempt s0 = 1" "test_results s0 = []" "\<not> success s0"
    by (simp_all add: s0_def new_state_def)
  have m: "max_attempts s0 = 3"
    by (simp add: s0_def new_state_def)
  from run_env0 run have v: "r = None" "\<not> success s'" "length (test_results s') = 3"
    "count_list (calls w') CallAnalyzePdf = 3" "count_list (calls w') CallTest = 3"
    by simp_all
  from run_agent_loop_budget [OF h run] v m
  have "list_all (\<lambda>d. \<not> get_success d) (test_results s')"
    by simp
  with h v m run show ?thesis
    by simp
qed

section \<open>How often the inputs are analysed\<close>




section \<open>Attempt numbering\<close>




section \<open>The success flag\<close>

text \<open>
  C7. If, when the loop is entered, the success flag says whether a last diagnostic exists and
  reports success (as in a fresh state), then so it does when the loop is left, however it is
  left, and after each single pass through the loop body. Of the diagnostics a run appends
  only the last can report success, so no attempt follows a successful one: a pass sets the
  flag exactly when it ends with \<^verbatim>\<open>break\<close>, and a run that ends with the flag set has
  returned normally.
\<close>

theorem success_iff_last_diagnostic:
  assumes run: "run_agent_loop e p s w = (r, s', w')"
    and inv: "success s = (test_results s \<noteq> [] \<and> get_success (last (test_results s)))"
  shows "success s' = (test_results s' \<noteq> [] \<and> get_success (last (test_results s'))) \<and>
         (\<exists>ds. test_results s' = test_results s @ ds \<and>
               list_all (\<lambda>d. \<not> get_success d) (butlast ds)) \<and>
         (success s' \<longrightarrow> r = None) \<and>
         (\<forall>sig s1 w1. \<not> success s \<and> attempt_body e p s w = (sig, s1, w1) \<longrightarrow>
            success s1 = (test_results s1 \<noteq> [] \<and> get_success (last (test_results s1))) \<and>
            (success s1 = (sig = Break)))"
proof -
  have step: "success s1 = (test_results s1 \<noteq> [] \<and> get_success (last (test_results s1))) \<and>
              (success s1 = (sig = Break))"
    if "\<not> success s" "attempt_body e p s w = (sig, s1, w1)" for sig s1 w1
    using that inv attempt_body_state(2,3) [OF that(2)] attempt_body_state(4) [OF that(2)]
    by (cases sig) auto
  from loop_history [OF run] obtain ds where
    ds: "test_results s' = test_results s @ ds"
        "list_all (\<lambda>d. \<not> get_success d) (butlast ds)"
        "success s' \<longleftrightarrow> success s \<or> (ds \<noteq> [] \<and> get_success (last ds))"
    by auto
  have stay: "success s \<Longrightarrow> ds = []"
  proof -
    assume "success s"
    then have "run_agent_loop e p s w = (None, s, w)"
      by (simp add: loop_stop)
    with run ds(1) show "ds = []" by simp
  qed
  have a: "success s' = (test_results s' \<noteq> [] \<and> get_success (last (test_results s')))"
  proof (cases "ds = []")
    case True
    with ds inv show ?thesis by simp
  next
    case False
    with stay have "\<not> success s" by auto
    with ds False show ?thesis by simp
  qed
  from loop_exit [OF run] have "success s' \<longrightarrow> r = None"
    by auto
  with a ds step show ?thesis
    by blast
qed

theorem success_iff_last_diagnostic_witness:
  "success s0 = (test_results s0 \<noteq> [] \<and> get_success (last (test_results s0))) \<and>
   (case run_agent_loop env_retry Google s0 w0 of
      (r, s', w') \<Rightarrow>
        success s' \<and> r = None \<and>
        test_results s' = [Failed no_parse_msg, Compared True (2, 3) (2, 3) True True] \<and>
        get_success (last (test_results s')) \<and>
        list_all (\<lambda>d. \<not> get_success d) (butlast (test_results s')))"
proof -
  obtain r s' w' where run: "run_agent_loop env_retry Google s0 w0 = (r, s', w')"
    by (cases "run_agent_loop env_retry Google s0 w0") auto
  have h: "success s0 = (test_results s0 \<noteq> [] \<and> get_success (last (test_results s0)))"
    by (simp add: s0_def new_state_def)
  from run_env_retry run
  have v: "test_results s' = [Failed no_parse_msg, Compared True (2, 3) (2, 3) True True]"
    by simp
  from success_iff_last_diagnostic [OF run h] v h run show ?thesis
    by (auto simp: s0_def new_state_def)
qed

section \<open>The executor and the verifier\<close>

text \<open>
  C9. Verifying a table against itself succeeds: when the candidate returns the very table
  that the expected CSV reads as, \<^verbatim>\<open>test_parser\<close> reports success with equal shapes and
  matching columns. It holds for every table, well-formed or not, whatever its dtypes and
  wherever its missing values are, because \<open>equals\<close> counts two missing values at one place
  as equal although \<^verbatim>\<open>nan == nan\<close> is false.
\<close>

theorem verify_reflexive:
  assumes "run_candidate e w code pdf = Inr (DataFrame T)"
    and "read_csv e w csv = Inr T"
    and "csv \<noteq> parser_file_name e w"
  shows "equals T T \<and>
         fst (test_parser e w code pdf csv) = Inr (Compared True (shape T) (shape T) True True)"
  using test_parser_frame [OF assms] by (simp add: equals_refl)

theorem verify_reflexive_witness:
  "well_formed sample_df \<and>
   run_candidate (env_returning (DataFrame sample_df)) w0 ''code'' ''icici.pdf.txt'' =
     Inr (DataFrame sample_df) \<and>
   read_csv (env_returning (DataFrame sample_df)) w0 ''icici.csv'' = Inr sample_df \<and>
   ''icici.csv'' \<noteq> parser_file_name (env_returning (DataFrame sample_df)) w0 \<and>
   fst (test_parser (env_returning (DataFrame sample_df)) w0 ''code'' ''icici.pdf.txt'' ''icici.csv'') =
     Inr (Compared True (2, 3) (2, 3) True True)"
proof -
  have h: "run_candidate (env_returning (DataFrame sample_df)) w0 ''code'' ''icici.pdf.txt'' =
             Inr (DataFrame sample_df)"
    "read_csv (env_returning (DataFrame sample_df)) w0 ''icici.csv'' = Inr sample_df"
    "''icici.csv'' \<noteq> parser_file_name (env_returning (DataFrame sample_df)) w0"
    by (simp_all add: eval_env)
  have "well_formed sample_df" "shape sample_df = (2, 3)"
    by (simp_all add: well_formed_def shape_def sample_df_def)
  with verify_reflexive [OF h] h show ?thesis
    by simp
qed

text \<open>
  C10. When loading the candidate, looking up its \<^verbatim>\<open>parse\<close> or calling it raises (any
  exception, caught or not), the temporary file written at the start of \<^verbatim>\<open>test_parser\<close> is
  still there afterwards, holding the candidate's source: \<^verbatim>\<open>os.remove\<close> is reached only
  after the comparison.
\<close>

theorem temp_file_left_behind:
  assumes "run_candidate e w code pdf = Inl ex"
  shows "files (snd (test_parser e w code pdf csv)) (parser_file_name e w) = Some code"
  using test_parser_raised [OF assms]
  by (simp add: captured_world written_def)

theorem temp_file_left_behind_witness:
  "run_candidate (env_raising (Exception ''boom'')) w0 ''code'' ''icici.pdf.txt'' =
     Inl (Exception ''boom'') \<and>
   files w0 ''temp_parser_20250101_120000.py'' = None \<and>
   parser_file_name (env_raising (Exception ''boom'')) w0 = ''temp_parser_20250101_120000.py'' \<and>
   files (snd (test_parser (env_raising (Exception ''boom'')) w0 ''code'' ''icici.pdf.txt''
                 ''icici.csv''))
     ''temp_parser_20250101_120000.py'' = Some ''code''"
proof -
  have h: "run_candidate (env_raising (Exception ''boom'')) w0 ''code'' ''icici.pdf.txt'' =
             Inl (Exception ''boom'')"
    by (simp add: eval_env)
  have n: "parser_file_name (env_raising (Exception ''boom'')) w0 =
             ''temp_parser_20250101_120000.py''"
    "files w0 ''temp_parser_20250101_120000.py'' = None"
    by (simp_all add: eval_env)
  from temp_file_left_behind [OF h, of "''icici.csv''"] h n show ?thesis
    by simp
qed




text \<open>
  C2, as stated: the diagnostic carries the kind of the first mismatch and its detail, for a
  column mismatch both column lists. It fails on the code: \<^verbatim>\<open>test_parser\<close> compares the whole
  frames once and reports that verdict next to both shapes and two booleans. Two candidates
  that rename the second column differently get the same diagnostic, in which
  \<open>data_match\<close> is false although every cell agrees, while the specification's verifier
  tells them apart by the column lists it records.
\<close>

theorem diagnostic_kind_counterexample:
  "fst (test_parser (env_returning (DataFrame (renamed ''Desc''))) w0 ''code'' ''icici.pdf.txt''
          ''icici.csv'') =
     Inr (Compared False (2, 3) (2, 3) False False) \<and>
   fst (test_parser (env_returning (DataFrame (renamed ''Descr''))) w0 ''code'' ''icici.pdf.txt''
          ''icici.csv'') =
     Inr (Compared False (2, 3) (2, 3) False False) \<and>
   spec_verify (Inr (renamed ''Desc'')) sample_df =
     SchemaMismatch [''Date'', ''Desc'', ''Debit''] [''Date'', ''Description'', ''Debit''] \<and>
   spec_verify (Inr (renamed ''Descr'')) sample_df =
     SchemaMismatch [''Date'', ''Descr'', ''Debit''] [''Date'', ''Description'', ''Debit'']"
  by (simp add: eval_env test_parser_def Let_def renamed_def sample_df_def spec_verify_def
      shape_def equals_def)

text \<open>
  C2, amended: an \<^verbatim>\<open>Exception\<close> raised by the candidate is reported first, as the failure
  diagnostic with its text and without any comparison. Otherwise, when the candidate returns
  a table and the expected table is read, the diagnostic is the verdict of the one
  whole-frame comparison \<open>equals\<close>, both shapes, whether the column names agree as lists
  (order and case matter), and the verdict again as \<open>data_match\<close>; a shape mismatch or a
  column mismatch makes that verdict false.
\<close>

theorem test_parser_diagnostic:
  "(\<forall>m. run_candidate e w code pdf = Inl (Exception m) \<longrightarrow>
        fst (test_parser e w code pdf csv) = Inr (Failed m)) \<and>
   (\<forall>R E. run_candidate e w code pdf = Inr (DataFrame R) \<and> read_csv e w csv = Inr E \<and>
          csv \<noteq> parser_file_name e w \<longrightarrow>
        fst (test_parser e w code pdf csv) =
          Inr (Compared (equals R E) (shape R) (shape E) (df_columns R = df_columns E)
                 (equals R E)) \<and>
        (shape R \<noteq> shape E \<longrightarrow> \<not> equals R E) \<and>
        (df_columns R \<noteq> df_columns E \<longrightarrow> \<not> equals R E))"
  by (auto simp: test_parser_raised test_parser_frame dest: equals_shape equals_columns)

theorem test_parser_diagnostic_witness:
  "run_candidate (env_raising (Exception ''boom'')) w0 ''code'' ''icici.pdf.txt'' =
     Inl (Exception ''boom'') \<and>
   fst (test_parser (env_raising (Exception ''boom'')) w0 ''code'' ''icici.pdf.txt''
          ''icici.csv'') = Inr (Failed ''boom'') \<and>
   run_candidate (env_returning (DataFrame (renamed ''Desc''))) w0 ''code'' ''icici.pdf.txt'' =
     Inr (DataFrame (renamed ''Desc'')) \<and>
   read_csv (env_returning (DataFrame (renamed ''Desc''))) w0 ''icici.csv'' = Inr sample_df \<and>
   ''icici.csv'' \<noteq> parser_file_name (env_returning (DataFrame (renamed ''Desc''))) w0 \<and>
   df_columns (renamed ''Desc'') \<noteq> df_columns sample_df \<and>
   \<not> equals (renamed ''Desc'') sample_df \<and>
   fst (test_parser (env_returning (DataFrame (renamed ''Desc''))) w0 ''code'' ''icici.pdf.txt''
          ''icici.csv'') =
     Inr (Compared False (2, 3) (2, 3) False False)"
proof -
  have a: "run_candidate (env_raising (Exception ''boom'')) w0 ''code'' ''icici.pdf.txt'' =
             Inl (Exception ''boom'')"
    by (simp add: eval_env)
  have b: "run_candidate (env_returning (DataFrame (renamed ''Desc''))) w0 ''code''
             ''icici.pdf.txt'' = Inr (DataFrame (renamed ''Desc''))"
    "read_csv (env_returning (DataFrame (renamed ''Desc''))) w0 ''icici.csv'' = Inr sample_df"
    "''icici.csv'' \<noteq> parser_file_name (env_returning (DataFrame (renamed ''Desc''))) w0"
    by (simp_all add: eval_env)
  have c: "df_columns (renamed ''Desc'') \<noteq> df_columns sample_df"
    "shape (renamed ''Desc'') = (2, 3)" "shape sample_df = (2, 3)"
    by (simp_all add: renamed_def sample_df_def shape_def)
  from test_parser_diagnostic [of "env_raising (Exception ''boom'')" w0 "''code''"
      "''icici.pdf.txt''" "''icici.csv''"] a
  have d: "fst (test_parser (env_raising (Exception ''boom'')) w0 ''code'' ''icici.pdf.txt''
             ''icici.csv'') = Inr (Failed ''boom'')"
    by simp
  from test_parser_diagnostic [of "env_returning (DataFrame (renamed ''Desc''))" w0 "''code''"
      "''icici.pdf.txt''" "''icici.csv''"] b c
  have "\<not> equals (renamed ''Desc'') sample_df \<and>
        fst (test_parser (env_returning (DataFrame (renamed ''Desc''))) w0 ''code''
          ''icici.pdf.txt'' ''icici.csv'') = Inr (Compared False (2, 3) (2, 3) False False)"
    by auto
  with a b c d show ?thesis
    by simp
qed

section \<open>Failing text generation\<close>






section \<open>What ends a run\<close>






end
